theory Spec2Isabelle
  imports Main "HOL-Library.Multiset"
begin

section \<open>JavaScript strings and event payloads\<close>

text \<open>
  A JavaScript string is modelled as a \<^typ>\<open>string\<close>, one \<^typ>\<open>char\<close> per code unit
  (code units below 256). \<open>String.prototype.trim\<close> removes white space and line
  terminators from both ends; below 256 these are the code units 9 to 13, 32 and 160.
\<close>

definition is_space :: "char \<Rightarrow> bool" where
  "is_space c \<longleftrightarrow> of_char c \<in> {9, 10, 11, 12, 13, 32, 160 :: nat}"

definition trim :: "string \<Rightarrow> string" where
  "trim s = rev (dropWhile is_space (rev (dropWhile is_space s)))"

text \<open>
  A value received in a socket event: the handlers distinguish strings from everything
  else (\<open>typeof v !== 'string'\<close>) and nothing more.
\<close>

datatype jsval = Str string | NotString

text \<open>
  The argument of \<open>chatMessage\<close>: destructuring \<open>const { room, text } = data\<close> throws on
  \<open>null\<close> and \<open>undefined\<close> and reads the two properties of anything else.
\<close>

datatype chat_data = Nullish | Data jsval jsval

section \<open>Stored documents (models/Message.js, models/Room.js, models/User.js)\<close>

record message =
  m_id :: nat
  m_room :: string
  m_username :: string
  m_text :: string
  m_ts :: int

record user =
  u_id :: string
  u_username :: string

text \<open>
  The Message schema: \<open>trim: true\<close> is a setter applied when the document is built;
  \<open>required\<close> (a non-empty string) and \<open>maxlength: 1000\<close> are validators run by
  \<open>save\<close>.
\<close>

definition new_Message :: "nat \<Rightarrow> string \<Rightarrow> string \<Rightarrow> string \<Rightarrow> int \<Rightarrow> message" where
  "new_Message i r u t d =
     \<lparr>m_id = i, m_room = trim r, m_username = trim u, m_text = trim t, m_ts = d\<rparr>"

definition validate_message :: "message \<Rightarrow> bool" where
  "validate_message m \<longleftrightarrow>
     m_room m \<noteq> [] \<and> m_username m \<noteq> [] \<and> m_text m \<noteq> [] \<and> length (m_text m) \<le> 1000"

text \<open>The Room schema: 1 to 50 characters matching \<open>/^[a-zA-Z0-9_-]+$/\<close>.\<close>

definition is_name_char :: "char \<Rightarrow> bool" where
  "is_name_char c \<longleftrightarrow>
     (let n = (of_char c :: nat)
      in (97 \<le> n \<and> n \<le> 122) \<or> (65 \<le> n \<and> n \<le> 90) \<or> (48 \<le> n \<and> n \<le> 57)
         \<or> n = 95 \<or> n = 45)"

definition matches_name_regex :: "string \<Rightarrow> bool" where
  "matches_name_regex s \<longleftrightarrow> s \<noteq> [] \<and> list_all is_name_char s"

definition valid_room_name :: "string \<Rightarrow> bool" where
  "valid_room_name s \<longleftrightarrow> 1 \<le> length s \<and> length s \<le> 50 \<and> matches_name_regex s"

section \<open>Server state and environment\<close>

text \<open>
  A connected socket with the attributes the authentication middleware sets and the
  \<open>socket.rooms\<close> set of Socket.io. The server state holds the connected sockets and the
  three collections. Room documents are represented by their names.
\<close>

record sock =
  sid :: string
  userId :: string
  username :: string
  rooms :: "string set"

record server =
  sockets :: "sock list"
  room_store :: "string list"
  message_store :: "message list"
  user_store :: "user list"

text \<open>
  What one handler run reads from outside the state: the clock (\<open>new Date()\<close>), the
  identifier of a new document, the state of the database connection, which database
  calls throw, and the result of \<open>jwt.verify(token, JWT_SECRET)\<close>.
\<close>

datatype db_failure = AuthenticationFailed | OtherFailure

record claims =
  c_userId :: string
  c_username :: string

datatype verify_result =
  Decoded claims | JsonWebTokenError | TokenExpiredError | NotBeforeError string

record env =
  now :: int
  new_id :: nat
  readyState :: nat
  connectDB_ok :: bool
  room_find :: "db_failure option"
  message_find_ok :: bool
  save_ok :: bool
  user_find :: "string option"
  jwt_verify :: "string \<Rightarrow> verify_result"

section \<open>Events and effects\<close>

datatype error_message =
    Invalid_room_name
  | Database_connection_lost
  | Database_authentication_failed
  | Database_error
  | Room_does_not_exist string
  | Failed_to_join_room
  | Message_text_is_required
  | Message_cannot_exceed_1000_characters
  | You_must_join_the_room_first
  | Failed_to_send_message

datatype event =
    ErrorEv error_message
  | RoomHistory string "message list"
  | UserJoined string string
  | MessageEv message

text \<open>
  What a handler does, in the order it does it: a query of the room collection, a query
  of the message collection, a completed save of a message, and the delivery of an event
  to one socket.
\<close>

datatype effect =
    Room_findOne string
  | Message_find string
  | Message_save message
  | Emit string event

text \<open>
  The handlers emit an error message only. The specification's error kinds are assigned
  to the messages as follows.
\<close>

datatype error_kind = ValidationError | NotFoundError | StateError | StorageError

fun kind_of :: "error_message \<Rightarrow> error_kind" where
  "kind_of Invalid_room_name = ValidationError"
| "kind_of Message_text_is_required = ValidationError"
| "kind_of Message_cannot_exceed_1000_characters = ValidationError"
| "kind_of (Room_does_not_exist r) = NotFoundError"
| "kind_of You_must_join_the_room_first = StateError"
| "kind_of Database_connection_lost = StorageError"
| "kind_of Database_authentication_failed = StorageError"
| "kind_of Database_error = StorageError"
| "kind_of Failed_to_join_room = StorageError"
| "kind_of Failed_to_send_message = StorageError"

section \<open>Socket.io primitives\<close>

definition find_socket :: "string \<Rightarrow> server \<Rightarrow> sock option" where
  "find_socket i st = find (\<lambda>s. sid s = i) (sockets st)"

definition socket_join :: "string \<Rightarrow> string \<Rightarrow> server \<Rightarrow> server" where
  "socket_join i r st =
     st\<lparr>sockets := map (\<lambda>s. if sid s = i then s\<lparr>rooms := insert r (rooms s)\<rparr> else s) (sockets st)\<rparr>"

definition socket_leave :: "string \<Rightarrow> string \<Rightarrow> server \<Rightarrow> server" where
  "socket_leave i r st =
     st\<lparr>sockets := map (\<lambda>s. if sid s = i then s\<lparr>rooms := rooms s - {r}\<rparr> else s) (sockets st)\<rparr>"

text \<open>
  The sockets that are in a room, listed in the order of their connection. Socket.io
  keeps a room's sockets in the order in which they joined it and delivers in that
  order; the recipients are the same, and only who receives an event is meant by the
  lists of deliveries below, not the order among the recipients of one event.
\<close>

definition in_room :: "string \<Rightarrow> server \<Rightarrow> string list" where
  "in_room r st = map sid (filter (\<lambda>s. r \<in> rooms s) (sockets st))"

text \<open>\<open>socket.emit\<close>, \<open>socket.to(room).emit\<close> (the room without the sender) and \<open>io.to(room).emit\<close>.\<close>

definition socket_emit :: "string \<Rightarrow> event \<Rightarrow> effect list" where
  "socket_emit i e = [Emit i e]"

definition socket_to_emit :: "string \<Rightarrow> string \<Rightarrow> event \<Rightarrow> server \<Rightarrow> effect list" where
  "socket_to_emit i r e st = map (\<lambda>j. Emit j e) (filter (\<lambda>j. j \<noteq> i) (in_room r st))"

definition io_to_emit :: "string \<Rightarrow> event \<Rightarrow> server \<Rightarrow> effect list" where
  "io_to_emit r e st = map (\<lambda>j. Emit j e) (in_room r st)"

section \<open>Message queries\<close>

text \<open>
  \<open>Message.find({ room }).sort({ ts: -1 })\<close>: the room's messages, newest first. The
  sort is the stable insertion sort of the library on the negated timestamp.
\<close>

definition room_messages :: "string \<Rightarrow> message list \<Rightarrow> message list" where
  "room_messages r ms = filter (\<lambda>m. m_room m = r) ms"

definition sort_desc :: "message list \<Rightarrow> message list" where
  "sort_desc ms = sort_key (\<lambda>m. - m_ts m) ms"

text \<open>\<open>.limit(n).skip(k)\<close> skips first and limits second, whatever the order of the calls; then \<open>messages.reverse()\<close>.\<close>

definition find_messages :: "string \<Rightarrow> nat \<Rightarrow> nat \<Rightarrow> message list \<Rightarrow> message list" where
  "find_messages r n k ms = rev (take n (drop k (sort_desc (room_messages r ms))))"

definition recent :: "string \<Rightarrow> nat \<Rightarrow> message list \<Rightarrow> message list" where
  "recent r n ms = find_messages r n 0 ms"

text \<open>
  The specification's reading of the history: the last \<open>n\<close> of the room's messages in
  chronological order.
\<close>

definition last_n :: "nat \<Rightarrow> 'a list \<Rightarrow> 'a list" where
  "last_n n xs = drop (length xs - n) xs"

definition recent_spec :: "string \<Rightarrow> nat \<Rightarrow> message list \<Rightarrow> message list" where
  "recent_spec r n ms = last_n n (sort_key m_ts (room_messages r ms))"

section \<open>Socket handlers (index.js)\<close>

definition joinRoom :: "env \<Rightarrow> string \<Rightarrow> jsval \<Rightarrow> server \<Rightarrow> server \<times> effect list" where
  "joinRoom e i room st =
     (case find_socket i st of
        None \<Rightarrow> (st, [])
      | Some s \<Rightarrow>
         (case room of
            NotString \<Rightarrow> (st, socket_emit i (ErrorEv Invalid_room_name))
          | Str r \<Rightarrow>
             if r = [] \<or> length (trim r) = 0 then (st, socket_emit i (ErrorEv Invalid_room_name))
             else
               let roomName = trim r in
               if readyState e \<noteq> 1 \<and> \<not> connectDB_ok e
               then (st, socket_emit i (ErrorEv Database_connection_lost))
               else
                 (case room_find e of
                    Some AuthenticationFailed \<Rightarrow>
                      (st, Room_findOne roomName # socket_emit i (ErrorEv Database_authentication_failed))
                  | Some OtherFailure \<Rightarrow>
                      (st, Room_findOne roomName # socket_emit i (ErrorEv Database_error))
                  | None \<Rightarrow>
                      if roomName \<notin> set (room_store st)
                      then (st, Room_findOne roomName # socket_emit i (ErrorEv (Room_does_not_exist roomName)))
                      else
                        let st' = socket_join i roomName st in
                        if \<not> message_find_ok e
                        then (st', [Room_findOne roomName, Message_find roomName]
                                   @ socket_emit i (ErrorEv Failed_to_join_room))
                        else
                          let messages = recent roomName 50 (message_store st') in
                          (st', [Room_findOne roomName, Message_find roomName]
                                @ socket_emit i (RoomHistory roomName messages)
                                @ socket_to_emit i roomName (UserJoined (username s) roomName) st'))))"

definition chatMessage :: "env \<Rightarrow> string \<Rightarrow> chat_data \<Rightarrow> server \<Rightarrow> server \<times> effect list" where
  "chatMessage e i data st =
     (case find_socket i st of
        None \<Rightarrow> (st, [])
      | Some s \<Rightarrow>
         (case data of
            Nullish \<Rightarrow> (st, socket_emit i (ErrorEv Failed_to_send_message))
          | Data room text' \<Rightarrow>
             (case room of
                NotString \<Rightarrow> (st, socket_emit i (ErrorEv Invalid_room_name))
              | Str r \<Rightarrow>
                 if r = [] \<or> length (trim r) = 0 then (st, socket_emit i (ErrorEv Invalid_room_name))
                 else
                   (case text' of
                      NotString \<Rightarrow> (st, socket_emit i (ErrorEv Message_text_is_required))
                    | Str t \<Rightarrow>
                       if t = [] \<or> length (trim t) = 0
                       then (st, socket_emit i (ErrorEv Message_text_is_required))
                       else if length t > 1000
                       then (st, socket_emit i (ErrorEv Message_cannot_exceed_1000_characters))
                       else
                         let roomName = trim r; messageText = trim t in
                         if roomName \<notin> rooms s
                         then (st, socket_emit i (ErrorEv You_must_join_the_room_first))
                         else
                           let message = new_Message (new_id e) roomName (username s) messageText (now e) in
                           if \<not> (validate_message message \<and> save_ok e)
                           then (st, socket_emit i (ErrorEv Failed_to_send_message))
                           else
                             let st' = st\<lparr>message_store := message_store st @ [message]\<rparr> in
                             (st', Message_save message
                                   # io_to_emit roomName
                                       (MessageEv \<lparr>m_id = m_id message, m_room = roomName,
                                                   m_username = username s, m_text = messageText,
                                                   m_ts = m_ts message\<rparr>) st')))))"

definition leaveRoom :: "string \<Rightarrow> jsval \<Rightarrow> server \<Rightarrow> server" where
  "leaveRoom i room st =
     (case room of
        NotString \<Rightarrow> st
      | Str r \<Rightarrow> if r \<noteq> [] then socket_leave i (trim r) st else st)"

text \<open>On disconnect Socket.io drops the socket and with it its room memberships; the handler itself only logs.\<close>

definition disconnect :: "string \<Rightarrow> server \<Rightarrow> server" where
  "disconnect i st = st\<lparr>sockets := filter (\<lambda>s. sid s \<noteq> i) (sockets st)\<rparr>"

section \<open>Authentication of a connection (the \<open>io.use\<close> middleware)\<close>

record handshake =
  auth_token :: "string option"
  authorization :: "string option"

datatype auth_error =
    No_token_provided
  | User_not_found
  | Invalid_token
  | Token_expired
  | Other_auth_error string

text \<open>\<open>socket.handshake.auth.token || socket.handshake.headers.authorization?.substring(7)\<close>\<close>

definition handshake_token :: "handshake \<Rightarrow> string option" where
  "handshake_token h =
     (case auth_token h of
        Some t \<Rightarrow> if t \<noteq> [] then Some t else map_option (drop 7) (authorization h)
      | None \<Rightarrow> map_option (drop 7) (authorization h))"

definition findById :: "string \<Rightarrow> user list \<Rightarrow> user option" where
  "findById i us = find (\<lambda>u. u_id u = i) us"

definition socket_auth :: "env \<Rightarrow> handshake \<Rightarrow> server \<Rightarrow> auth_error + (string \<times> string)" where
  "socket_auth e h st =
     (case handshake_token h of
        None \<Rightarrow> Inl No_token_provided
      | Some token \<Rightarrow>
         if token = [] then Inl No_token_provided
         else
           (case jwt_verify e token of
              JsonWebTokenError \<Rightarrow> Inl Invalid_token
            | TokenExpiredError \<Rightarrow> Inl Token_expired
            | NotBeforeError m \<Rightarrow> Inl (Other_auth_error m)
            | Decoded decoded \<Rightarrow>
               (case user_find e of
                  Some m \<Rightarrow> Inl (Other_auth_error m)
                | None \<Rightarrow>
                   (case findById (c_userId decoded) (user_store st) of
                      None \<Rightarrow> Inl User_not_found
                    | Some u \<Rightarrow> Inr (u_id u, u_username u)))))"

text \<open>
  A connection attempt: Socket.io gives the socket an identifier of its own and puts it
  in the room of that name. It never gives out the identifier of a connected socket, so
  for an identifier in use the state is left alone. A refused handshake leaves no socket
  behind. The tokens are signed by the authentication routes (\<open>jwt.sign\<close>) with the
  payload \<open>token_payload\<close>.
\<close>

definition connect :: "env \<Rightarrow> string \<Rightarrow> handshake \<Rightarrow> server \<Rightarrow> server \<times> auth_error option" where
  "connect e i h st =
     (case socket_auth e h st of
        Inl err \<Rightarrow> (st, Some err)
      | Inr (uid, uname) \<Rightarrow>
         if i \<in> set (map sid (sockets st)) then (st, None)
         else (st\<lparr>sockets := sockets st @ [\<lparr>sid = i, userId = uid, username = uname, rooms = {i}\<rparr>]\<rparr>, None))"

definition token_payload :: "user \<Rightarrow> claims" where
  "token_payload u = \<lparr>c_userId = u_id u, c_username = u_username u\<rparr>"

section \<open>REST routes (middleware/auth.js, routes/chat.js, routes/rooms.js)\<close>

datatype rest_auth_error =
    No_bearer_header
  | No_token
  | Rest_user_not_found
  | Rest_invalid_token
  | Rest_token_expired

datatype response =
    Validation_failed "string list"
  | Unauthorized rest_auth_error
  | Message_created message
  | Messages_ok string "message list"
  | Room_already_exists
  | Room_created string
  | Next_error

text \<open>
  \<open>authMiddleware\<close>: answers 401 itself, or hands an unexpected error to the error
  handler (\<open>next(error)\<close>), or attaches the user to the request.
\<close>

definition authMiddleware :: "env \<Rightarrow> string option \<Rightarrow> server \<Rightarrow> response + user" where
  "authMiddleware e authHeader st =
     (case authHeader of
        None \<Rightarrow> Inl (Unauthorized No_bearer_header)
      | Some h \<Rightarrow>
         if take 7 h \<noteq> ''Bearer '' then Inl (Unauthorized No_bearer_header)
         else
           let token = drop 7 h in
           if token = [] then Inl (Unauthorized No_token)
           else
             (case jwt_verify e token of
                JsonWebTokenError \<Rightarrow> Inl (Unauthorized Rest_invalid_token)
              | TokenExpiredError \<Rightarrow> Inl (Unauthorized Rest_token_expired)
              | NotBeforeError m \<Rightarrow> Inl Next_error
              | Decoded decoded \<Rightarrow>
                 (case user_find e of
                    Some m \<Rightarrow> Inl Next_error
                  | None \<Rightarrow>
                     (case findById (c_userId decoded) (user_store st) of
                        None \<Rightarrow> Inl (Unauthorized Rest_user_not_found)
                      | Some u \<Rightarrow> Inr u))))"

text \<open>
  A field of a request body or query string: absent, or a string. The sanitizer
  \<open>trim()\<close> of express-validator turns an absent field into the empty string and writes
  the trimmed value back into the request.
\<close>

definition sanitized :: "string option \<Rightarrow> string" where
  "sanitized v = trim (case v of None \<Rightarrow> [] | Some s \<Rightarrow> s)"

record body =
  b_room :: "string option"
  b_text :: "string option"

text \<open>\<open>POST /api/chat/messages\<close>: validation chains, \<open>validate\<close>, \<open>authMiddleware\<close>, handler.\<close>

definition post_message_errors :: "body \<Rightarrow> string list" where
  "post_message_errors b =
     (if sanitized (b_room b) = [] then [''Room is required''] else [])
     @ (if sanitized (b_text b) = [] then [''Message text is required''] else [])
     @ (if length (sanitized (b_text b)) > 1000 then [''Message cannot exceed 1000 characters''] else [])"

definition post_message :: "env \<Rightarrow> string option \<Rightarrow> body \<Rightarrow> server \<Rightarrow> server \<times> response" where
  "post_message e authHeader b st =
     (if post_message_errors b \<noteq> [] then (st, Validation_failed (post_message_errors b))
      else
        (case authMiddleware e authHeader st of
           Inl resp \<Rightarrow> (st, resp)
         | Inr u \<Rightarrow>
            let room = sanitized (b_room b); text' = sanitized (b_text b);
                message = new_Message (new_id e) (trim room) (u_username u) (trim text') (now e)
            in if \<not> (validate_message message \<and> save_ok e) then (st, Next_error)
               else (st\<lparr>message_store := message_store st @ [message]\<rparr>, Message_created message)))"






text \<open>\<open>POST /rooms\<close>, the only route that writes the room collection.\<close>

definition post_room_errors :: "string option \<Rightarrow> string list" where
  "post_room_errors name =
     (if sanitized name = [] then [''Room name is required''] else [])
     @ (if \<not> (1 \<le> length (sanitized name) \<and> length (sanitized name) \<le> 50)
        then [''Room name must be between 1 and 50 characters''] else [])
     @ (if \<not> matches_name_regex (sanitized name)
        then [''Room name can only contain letters, numbers, hyphens, and underscores''] else [])"

definition post_room :: "env \<Rightarrow> string option \<Rightarrow> string option \<Rightarrow> server \<Rightarrow> server \<times> response" where
  "post_room e authHeader name st =
     (if post_room_errors name \<noteq> [] then (st, Validation_failed (post_room_errors name))
      else
        (case authMiddleware e authHeader st of
           Inl resp \<Rightarrow> (st, resp)
         | Inr u \<Rightarrow>
            let roomName = trim (sanitized name) in
            (case room_find e of
               Some f \<Rightarrow> (st, Next_error)
             | None \<Rightarrow>
                if roomName \<in> set (room_store st) then (st, Room_already_exists)
                else if \<not> (valid_room_name (trim roomName) \<and> save_ok e) then (st, Next_error)
                else (st\<lparr>room_store := room_store st @ [trim roomName]\<rparr>, Room_created (trim roomName)))))"

section \<open>Runs of the server\<close>

text \<open>
  The operations that change the state, each with the environment it runs in, and the
  state after a sequence of them. The server starts with no socket, no room and no
  message.
\<close>

datatype command =
    Connect string handshake
  | JoinRoom string jsval
  | ChatMessage string chat_data
  | LeaveRoom string jsval
  | Disconnect string
  | Post_room "string option" "string option"
  | Post_message "string option" body

fun exec :: "env \<Rightarrow> command \<Rightarrow> server \<Rightarrow> server" where
  "exec e (Connect i h) st = fst (connect e i h st)"
| "exec e (JoinRoom i room) st = fst (joinRoom e i room st)"
| "exec e (ChatMessage i d) st = fst (chatMessage e i d st)"
| "exec e (LeaveRoom i room) st = leaveRoom i room st"
| "exec e (Disconnect i) st = disconnect i st"
| "exec e (Post_room h name) st = fst (post_room e h name st)"
| "exec e (Post_message h b) st = fst (post_message e h b st)"

fun run :: "(env \<times> command) list \<Rightarrow> server \<Rightarrow> server" where
  "run [] st = st"
| "run ((e, c) # cs) st = run cs (exec e c st)"

definition initial :: "user list \<Rightarrow> server" where
  "initial us = \<lparr>sockets = [], room_store = [], message_store = [], user_store = us\<rparr>"

section \<open>Consistency of the server state\<close>

text \<open>
  The User schema (models/User.js): the username is trimmed, has 3 to 20 characters and
  matches \<open>/^[a-zA-Z0-9_]+$/\<close>.
\<close>

definition is_username_char :: "char \<Rightarrow> bool" where
  "is_username_char c \<longleftrightarrow>
     (let n = (of_char c :: nat)
      in (97 \<le> n \<and> n \<le> 122) \<or> (65 \<le> n \<and> n \<le> 90) \<or> (48 \<le> n \<and> n \<le> 57) \<or> n = 95)"

definition valid_username :: "string \<Rightarrow> bool" where
  "valid_username s \<longleftrightarrow> 3 \<le> length s \<and> length s \<le> 20 \<and> list_all is_username_char s"

text \<open>
  What holds of every state the server reaches: a socket is in its own room and in rooms
  of the room collection only, its identity is that of a stored user, and every stored
  room name obeys the Room schema.
\<close>

definition consistent :: "server \<Rightarrow> bool" where
  "consistent st \<longleftrightarrow>
     (\<forall>s \<in> set (sockets st).
        rooms s \<subseteq> insert (sid s) (set (room_store st))
        \<and> (\<exists>u \<in> set (user_store st). userId s = u_id u \<and> username s = u_username u))
     \<and> (\<forall>n \<in> set (room_store st). valid_room_name n)"

section \<open>A sample run\<close>

text \<open>
  Two users, two rooms, two connections that have joined \<open>general\<close>: the state \<open>lobby\<close>
  and the run that reaches it. The theorems below are instantiated on it.
\<close>

definition alice :: user where
  "alice = \<lparr>u_id = ''u1'', u_username = ''alice''\<rparr>"

definition bob :: user where
  "bob = \<lparr>u_id = ''u2'', u_username = ''bob''\<rparr>"

definition env0 :: env where
  "env0 = \<lparr>now = 1700000000000, new_id = 7, readyState = 1, connectDB_ok = True,
            room_find = None, message_find_ok = True, save_ok = True, user_find = None,
            jwt_verify = (\<lambda>t. if t = ''token-alice'' then Decoded (token_payload alice)
                              else if t = ''token-bob'' then Decoded (token_payload bob)
                              else JsonWebTokenError)\<rparr>"

definition alice_sock :: sock where
  "alice_sock = \<lparr>sid = ''s1'', userId = ''u1'', username = ''alice'', rooms = {''s1'', ''general''}\<rparr>"

definition bob_sock :: sock where
  "bob_sock = \<lparr>sid = ''s2'', userId = ''u2'', username = ''bob'', rooms = {''s2'', ''general''}\<rparr>"

definition lobby :: server where
  "lobby = \<lparr>sockets = [alice_sock, bob_sock], room_store = [''general'', ''random''],
             message_store = [], user_store = [alice, bob]\<rparr>"

definition lobby_run :: "(env \<times> command) list" where
  "lobby_run =
     [(env0, Post_room (Some ''Bearer token-alice'') (Some ''general'')),
      (env0, Post_room (Some ''Bearer token-bob'') (Some '' random '')),
      (env0, Connect ''s1'' \<lparr>auth_token = Some ''token-alice'', authorization = None\<rparr>),
      (env0, Connect ''s2'' \<lparr>auth_token = None, authorization = Some ''Bearer token-bob''\<rparr>),
      (env0, JoinRoom ''s1'' (Str ''general'')),
      (env0, JoinRoom ''s2'' (Str ''general''))]"

definition env1 :: env where
  "env1 = env0\<lparr>jwt_verify := (\<lambda>t. if t = ''token-renamed''
                                   then Decoded \<lparr>c_userId = ''u1'', c_username = ''mallory''\<rparr>
                                   else jwt_verify env0 t)\<rparr>"


definition tied :: "message list" where
  "tied =
     [\<lparr>m_id = 1, m_room = ''general'', m_username = ''alice'', m_text = ''first'', m_ts = 5\<rparr>,
      \<lparr>m_id = 2, m_room = ''general'', m_username = ''bob'', m_text = ''second'', m_ts = 5\<rparr>]"

definition padded_text :: string where
  "padded_text = replicate 1000 (CHR ''a'') @ '' ''"

lemmas sample_defs = alice_def bob_def env0_def alice_sock_def bob_sock_def lobby_def
  initial_def token_payload_def

lemmas string_defs = trim_def is_space_def is_name_char_def matches_name_regex_def
  valid_room_name_def sanitized_def

lemma lobby_reachable: "run lobby_run (initial [alice, bob]) = lobby"
  by code_simp

section \<open>Trimming\<close>

lemma trim_Nil: "trim [] = []"
  by (simp add: trim_def)

lemma dropWhile_snoc_keep: "\<not> P y \<Longrightarrow> dropWhile P (xs @ [y]) = dropWhile P xs @ [y]"
  by (induction xs) auto

lemma trim_ends:
  assumes "trim s \<noteq> []"
  shows "\<not> is_space (hd (trim s))" and "\<not> is_space (last (trim s))"
proof -
  define a where "a = dropWhile is_space s"
  define b where "b = dropWhile is_space (rev a)"
  have t: "trim s = rev b" by (simp add: trim_def a_def b_def)
  from assms t have bne: "b \<noteq> []" by simp
  then have ane: "a \<noteq> []" by (auto simp: b_def)
  then have ha: "\<not> is_space (hd a)" unfolding a_def by (rule hd_dropWhile)
  from ane have "rev a = rev (tl a) @ [hd a]" by (cases a) simp_all
  then have "b = dropWhile is_space (rev (tl a)) @ [hd a]"
    unfolding b_def using ha by (simp add: dropWhile_snoc_keep)
  then have "last b = hd a" by simp
  with ha bne show "\<not> is_space (hd (trim s))" by (simp add: t hd_rev)
  from bne have "\<not> is_space (hd b)" unfolding b_def by (rule hd_dropWhile)
  with bne show "\<not> is_space (last (trim s))" by (simp add: t last_rev)
qed

lemma trim_fixed:
  assumes "s \<noteq> []" "\<not> is_space (hd s)" "\<not> is_space (last s)"
  shows "trim s = s"
proof -
  from assms have 1: "dropWhile is_space s = s" by (cases s) simp_all
  from assms have "rev s \<noteq> []" "\<not> is_space (hd (rev s))" by (simp_all add: hd_rev)
  then have 2: "dropWhile is_space (rev s) = rev s" by (cases "rev s") simp_all
  show ?thesis by (simp add: trim_def 1 2)
qed

lemma trim_trim: "trim (trim s) = trim s"
proof (cases "trim s = []")
  case True
  with trim_Nil show ?thesis by simp
next
  case False
  then show ?thesis by (intro trim_fixed trim_ends)
qed

lemma length_trim: "length (trim s) \<le> length s"
proof -
  have "length (dropWhile is_space (rev (dropWhile is_space s))) \<le> length (rev (dropWhile is_space s))"
    by (rule length_dropWhile_le)
  also have "\<dots> \<le> length s" by (simp add: length_dropWhile_le)
  finally show ?thesis by (simp add: trim_def)
qed

section \<open>Joining a room that does not exist\<close>

text \<open>
  C3. When the room name is non-empty after trimming, the database can be reached and
  the room query finds no room of that name, \<open>joinRoom\<close> makes that one query and emits
  the error "Room ... does not exist" (the specification's NotFoundError) to the caller
  alone. The server state is returned as it was: the caller is still in the rooms it was
  in, no message query is made and nobody is notified.
\<close>

theorem joinRoom_nonexistent_room:
  assumes "find_socket i st = Some s"
    and "trim r \<noteq> []"
    and "readyState e = 1 \<or> connectDB_ok e"
    and "room_find e = None"
    and "trim r \<notin> set (room_store st)"
  shows "joinRoom e i (Str r) st
           = (st, [Room_findOne (trim r), Emit i (ErrorEv (Room_does_not_exist (trim r)))])
         \<and> kind_of (Room_does_not_exist (trim r)) = NotFoundError"
proof -
  from assms(2) have "r \<noteq> []" by (auto simp: trim_Nil)
  with assms show ?thesis
    by (auto simp: joinRoom_def socket_emit_def Let_def)
qed

theorem joinRoom_nonexistent_room_witness:
  "find_socket ''s2'' lobby = Some bob_sock
   \<and> trim ''ghost-room'' \<noteq> []
   \<and> (readyState env0 = 1 \<or> connectDB_ok env0)
   \<and> room_find env0 = None
   \<and> trim ''ghost-room'' \<notin> set (room_store lobby)
   \<and> joinRoom env0 ''s2'' (Str ''ghost-room'') lobby
       = (lobby, [Room_findOne ''ghost-room'', Emit ''s2'' (ErrorEv (Room_does_not_exist ''ghost-room''))])
   \<and> ''general'' \<in> rooms bob_sock"
  using joinRoom_nonexistent_room [of "''s2''" lobby bob_sock "''ghost-room''" env0]
  by (simp add: sample_defs string_defs find_socket_def)

section \<open>Room history\<close>





















text \<open>
  Two messages of one room with the same timestamp: the history lists the later stored
  one first, sorting the stored messages by timestamp lists the earlier stored one first.
  Both lists are in non-decreasing timestamp order.
\<close>

lemma recent_equal_timestamps:
  "recent ''general'' 2 tied = [tied ! 1, tied ! 0]
   \<and> recent_spec ''general'' 2 tied = [tied ! 0, tied ! 1]
   \<and> map m_ts (recent ''general'' 2 tied) = map m_ts (recent_spec ''general'' 2 tied)"
  by code_simp

section \<open>Sockets\<close>

lemma find_map_sid:
  assumes "\<And>s. sid (f s) = sid s"
  shows "find (\<lambda>s. sid s = i) (map f xs) = map_option f (find (\<lambda>s. sid s = i) xs)"
  by (induction xs) (simp_all add: assms)

lemma find_socket_sid: "find_socket i st = Some s \<Longrightarrow> sid s = i \<and> s \<in> set (sockets st)"
  by (auto simp: find_socket_def find_Some_iff)

lemma find_socket_join:
  "find_socket i (socket_join j r st)
     = map_option (\<lambda>s. if sid s = j then s\<lparr>rooms := insert r (rooms s)\<rparr> else s) (find_socket i st)"
  unfolding find_socket_def socket_join_def by (simp add: find_map_sid)

lemma find_socket_message_store [simp]:
  "find_socket i (st\<lparr>message_store := ms\<rparr>) = find_socket i st"
  by (simp add: find_socket_def)

lemma others_in_room_join:
  "filter (\<lambda>j. j \<noteq> i) (in_room r (socket_join i r' st)) = filter (\<lambda>j. j \<noteq> i) (in_room r st)"
proof -
  have "filter (\<lambda>j. j \<noteq> i)
          (map sid (filter (\<lambda>s. r \<in> rooms s)
             (map (\<lambda>s. if sid s = i then s\<lparr>rooms := insert r' (rooms s)\<rparr> else s) xs)))
        = filter (\<lambda>j. j \<noteq> i) (map sid (filter (\<lambda>s. r \<in> rooms s) xs))" for xs
    by (induction xs) auto
  then show ?thesis by (simp add: in_room_def socket_join_def)
qed

lemma in_room_iff: "j \<in> set (in_room r st) \<longleftrightarrow> (\<exists>s \<in> set (sockets st). sid s = j \<and> r \<in> rooms s)"
  by (auto simp: in_room_def)

section \<open>What each operation changes\<close>

lemma joinRoom_state:
  "fst (joinRoom e i room st) = st
   \<or> (\<exists>r. r \<in> set (room_store st) \<and> fst (joinRoom e i room st) = socket_join i r st)"
  by (auto simp: joinRoom_def Let_def split: option.splits jsval.splits db_failure.splits)

lemma chatMessage_state: "\<exists>ms. fst (chatMessage e i d st) = st\<lparr>message_store := ms\<rparr>"
proof (cases "fst (chatMessage e i d st) = st")
  case True
  then have "fst (chatMessage e i d st) = st\<lparr>message_store := message_store st\<rparr>" by simp
  then show ?thesis ..
next
  case False
  then show ?thesis
    by (auto simp: chatMessage_def Let_def split: option.splits jsval.splits chat_data.splits if_splits)
qed

lemma post_message_state: "\<exists>ms. fst (post_message e h b st) = st\<lparr>message_store := ms\<rparr>"
proof (cases "fst (post_message e h b st) = st")
  case True
  then have "fst (post_message e h b st) = st\<lparr>message_store := message_store st\<rparr>" by simp
  then show ?thesis ..
next
  case False
  then show ?thesis
    by (auto simp: post_message_def Let_def split: sum.splits if_splits)
qed

lemma post_room_state:
  "fst (post_room e h n st) = st
   \<or> (\<exists>r. valid_room_name r \<and> fst (post_room e h n st) = st\<lparr>room_store := room_store st @ [r]\<rparr>)"
  by (auto simp: post_room_def Let_def split: sum.splits option.splits if_splits)

lemma socket_auth_user:
  "socket_auth e h st = Inr (uid, uname) \<Longrightarrow> \<exists>u \<in> set (user_store st). uid = u_id u \<and> uname = u_username u"
  by (auto simp: socket_auth_def findById_def find_Some_iff
           split: option.splits if_splits verify_result.splits)

lemma connect_state:
  "fst (connect e i h st) = st
   \<or> (\<exists>u \<in> set (user_store st).
        fst (connect e i h st)
          = st\<lparr>sockets := sockets st @ [\<lparr>sid = i, userId = u_id u, username = u_username u, rooms = {i}\<rparr>]\<rparr>)"
proof (cases "socket_auth e h st")
  case (Inl a)
  then show ?thesis by (simp add: connect_def)
next
  case (Inr p)
  obtain uid uname where p: "p = (uid, uname)" by (cases p)
  with Inr socket_auth_user obtain u where "u \<in> set (user_store st)" "uid = u_id u" "uname = u_username u"
    by blast
  with Inr p show ?thesis by (auto simp: connect_def)
qed

lemma leaveRoom_state: "leaveRoom i room st = st \<or> (\<exists>r. leaveRoom i room st = socket_leave i r st)"
  by (auto simp: leaveRoom_def split: jsval.splits)

section \<open>Consistency is kept\<close>

lemma consistent_initial: "consistent (initial us)"
  by (simp add: consistent_def initial_def)

lemma consistent_message_store: "consistent (st\<lparr>message_store := ms\<rparr>) = consistent st"
  by (simp add: consistent_def)

lemma consistent_join: "consistent st \<Longrightarrow> r \<in> set (room_store st) \<Longrightarrow> consistent (socket_join i r st)"
  unfolding consistent_def socket_join_def by fastforce

lemma consistent_leave: "consistent st \<Longrightarrow> consistent (socket_leave i r st)"
  unfolding consistent_def socket_leave_def by fastforce

lemma consistent_disconnect: "consistent st \<Longrightarrow> consistent (disconnect i st)"
  unfolding consistent_def disconnect_def by auto

lemma consistent_room: "consistent st \<Longrightarrow> valid_room_name r \<Longrightarrow> consistent (st\<lparr>room_store := room_store st @ [r]\<rparr>)"
  unfolding consistent_def by auto

lemma consistent_connect:
  "consistent st \<Longrightarrow> u \<in> set (user_store st) \<Longrightarrow>
   consistent (st\<lparr>sockets := sockets st @ [\<lparr>sid = i, userId = u_id u, username = u_username u, rooms = {i}\<rparr>]\<rparr>)"
  unfolding consistent_def by auto

lemma consistent_exec: "consistent st \<Longrightarrow> consistent (exec e c st)"
proof (cases c)
  case (Connect i h)
  then show "consistent st \<Longrightarrow> ?thesis" using connect_state [of e i h st] by (auto simp: consistent_connect)
next
  case (JoinRoom i room)
  then show "consistent st \<Longrightarrow> ?thesis" using joinRoom_state [of e i room st] by (auto simp: consistent_join)
next
  case (ChatMessage i d)
  then show "consistent st \<Longrightarrow> ?thesis" using chatMessage_state [of e i d st] by (auto simp: consistent_message_store)
next
  case (LeaveRoom i room)
  then show "consistent st \<Longrightarrow> ?thesis" using leaveRoom_state [of i room st] by (auto simp: consistent_leave)
next
  case (Disconnect i)
  then show "consistent st \<Longrightarrow> ?thesis" by (simp add: consistent_disconnect)
next
  case (Post_room h n)
  then show "consistent st \<Longrightarrow> ?thesis" using post_room_state [of e h n st] by (auto simp: consistent_room)
next
  case (Post_message h b)
  then show "consistent st \<Longrightarrow> ?thesis" using post_message_state [of e h b st] by (auto simp: consistent_message_store)
qed

lemma consistent_run: "consistent st \<Longrightarrow> consistent (run cs st)"
  by (induction cs arbitrary: st) (auto simp: consistent_exec)

lemma user_store_exec: "user_store (exec e c st) = user_store st"
proof (cases c)
  case (Connect i h)
  then show ?thesis using connect_state [of e i h st] by auto
next
  case (JoinRoom i room)
  then show ?thesis using joinRoom_state [of e i room st] by (auto simp: socket_join_def)
next
  case (ChatMessage i d)
  then show ?thesis using chatMessage_state [of e i d st] by auto
next
  case (LeaveRoom i room)
  then show ?thesis using leaveRoom_state [of i room st] by (auto simp: socket_leave_def)
next
  case (Disconnect i)
  then show ?thesis by (simp add: disconnect_def)
next
  case (Post_room h n)
  then show ?thesis using post_room_state [of e h n st] by auto
next
  case (Post_message h b)
  then show ?thesis using post_message_state [of e h b st] by auto
qed

lemma user_store_run: "user_store (run cs st) = user_store st"
  by (induction cs arbitrary: st) (auto simp: user_store_exec)

lemma reachable_consistent: "consistent (run cs (initial us))"
  by (rule consistent_run) (rule consistent_initial)

lemma reachable_users: "user_store (run cs (initial us)) = us"
  by (simp add: user_store_run initial_def)

lemma username_char_not_space: "is_username_char c \<Longrightarrow> \<not> is_space c"
  by (auto simp: is_username_char_def is_space_def Let_def)

lemma valid_username_trim: "valid_username s \<Longrightarrow> trim s = s"
proof -
  assume v: "valid_username s"
  then have ne: "s \<noteq> []" and all: "\<forall>c\<in>set s. is_username_char c"
    by (auto simp: valid_username_def list_all_iff)
  from ne all have "is_username_char (hd s)" "is_username_char (last s)" by simp_all
  then have "\<not> is_space (hd s)" "\<not> is_space (last s)" by (simp_all add: username_char_not_space)
  with ne show ?thesis by (rule trim_fixed)
qed

section \<open>Membership after a join\<close>

lemma find_socket_leave:
  "find_socket i (socket_leave j r st)
     = map_option (\<lambda>s. if sid s = j then s\<lparr>rooms := rooms s - {r}\<rparr> else s) (find_socket i st)"
  unfolding find_socket_def socket_leave_def by (simp add: find_map_sid)

lemma find_filter_keep:
  assumes "\<And>x. P x \<Longrightarrow> Q x"
  shows "find P (filter Q xs) = find P xs"
  using assms by (induction xs) auto

lemma find_socket_disconnect_other: "i \<noteq> j \<Longrightarrow> find_socket i (disconnect j st) = find_socket i st"
  unfolding find_socket_def disconnect_def by (auto intro: find_filter_keep)

lemma find_socket_disconnect: "find_socket i (disconnect i st) = None"
  unfolding find_socket_def disconnect_def by (simp add: find_None_iff)

lemma find_append_Some: "find P xs = Some x \<Longrightarrow> find P (xs @ ys) = Some x"
  by (induction xs) (auto split: if_splits)

lemma find_socket_connected:
  "find_socket i st = Some s \<Longrightarrow> find_socket i (st\<lparr>sockets := sockets st @ ys\<rparr>) = Some s"
  unfolding find_socket_def by (simp add: find_append_Some)

lemma find_socket_room_store [simp]:
  "find_socket i (st\<lparr>room_store := rs\<rparr>) = find_socket i st"
  by (simp add: find_socket_def)

lemma exec_keeps_memberships:
  assumes "find_socket i st = Some s"
    and "\<forall>room'. c \<noteq> LeaveRoom i room'" and "c \<noteq> Disconnect i"
  shows "\<exists>s'. find_socket i (exec e c st) = Some s' \<and> rooms s \<subseteq> rooms s'"
proof (cases c)
  case (Connect j h)
  with assms(1) connect_state [of e j h st] show ?thesis
    by (auto simp: find_socket_connected)
next
  case (JoinRoom j room)
  with assms(1) joinRoom_state [of e j room st] show ?thesis
    by (auto simp: find_socket_join)
next
  case (ChatMessage j d)
  with assms(1) chatMessage_state [of e j d st] show ?thesis by auto
next
  case (LeaveRoom j room)
  with assms(2) have "j \<noteq> i" by auto
  moreover from assms(1) have "sid s = i" by (simp add: find_socket_sid)
  ultimately show ?thesis
    using LeaveRoom assms(1) leaveRoom_state [of j room st] by (auto simp: find_socket_leave)
next
  case (Disconnect j)
  with assms(3) have "i \<noteq> j" by auto
  with Disconnect assms(1) show ?thesis by (simp add: find_socket_disconnect_other)
next
  case (Post_room h n)
  with assms(1) post_room_state [of e h n st] show ?thesis by auto
next
  case (Post_message h b)
  with assms(1) post_message_state [of e h b st] show ?thesis by auto
qed

lemma leaveRoom_membership:
  assumes "find_socket i st = Some s"
  shows "find_socket i (leaveRoom i room st)
           = Some (case room of
                     Str r' \<Rightarrow> if r' \<noteq> [] then s\<lparr>rooms := rooms s - {trim r'}\<rparr> else s
                   | NotString \<Rightarrow> s)"
proof -
  from assms have "sid s = i" by (simp add: find_socket_sid)
  with assms show ?thesis
    by (auto simp: leaveRoom_def find_socket_leave split: jsval.splits)
qed

text \<open>
  C1, as the handler has it. A join never releases a membership: whatever the outcome, the
  connection is afterwards in every room it was in before, and a successful join adds
  the room joined to that set. (Leaving the previous rooms is commented out in the
  handler.) No other operation of any connection or route releases one either, except
  the connection's own \<open>leaveRoom\<close>, which removes the room it names and no other, and
  its disconnection, after which the socket is gone.
\<close>

theorem joinRoom_keeps_memberships:
  assumes "find_socket i st = Some s"
  shows "(\<exists>s'. find_socket i (fst (joinRoom e i room st)) = Some s' \<and> rooms s \<subseteq> rooms s')
         \<and> (trim r \<noteq> [] \<and> (readyState e = 1 \<or> connectDB_ok e) \<and> room_find e = None
              \<and> trim r \<in> set (room_store st)
            \<longrightarrow> find_socket i (fst (joinRoom e i (Str r) st))
                  = Some (s\<lparr>rooms := insert (trim r) (rooms s)\<rparr>))
         \<and> ((\<forall>room'. c \<noteq> LeaveRoom i room') \<and> c \<noteq> Disconnect i
            \<longrightarrow> (\<exists>s'. find_socket i (exec e c st) = Some s' \<and> rooms s \<subseteq> rooms s'))
         \<and> find_socket i (leaveRoom i room st)
             = Some (case room of
                       Str r' \<Rightarrow> if r' \<noteq> [] then s\<lparr>rooms := rooms s - {trim r'}\<rparr> else s
                     | NotString \<Rightarrow> s)
         \<and> find_socket i (disconnect i st) = None"
proof (intro conjI impI)
  from assms have sid: "sid s = i" by (simp add: find_socket_sid)
  from joinRoom_state [of e i room st]
  show "\<exists>s'. find_socket i (fst (joinRoom e i room st)) = Some s' \<and> rooms s \<subseteq> rooms s'"
    using assms sid by (auto simp: find_socket_join)
next
  assume a: "trim r \<noteq> [] \<and> (readyState e = 1 \<or> connectDB_ok e) \<and> room_find e = None
              \<and> trim r \<in> set (room_store st)"
  from assms have sid: "sid s = i" by (simp add: find_socket_sid)
  from a have "r \<noteq> []" by (auto simp: trim_Nil)
  with a assms have "fst (joinRoom e i (Str r) st) = socket_join i (trim r) st"
    by (auto simp: joinRoom_def Let_def)
  with assms sid show "find_socket i (fst (joinRoom e i (Str r) st))
                  = Some (s\<lparr>rooms := insert (trim r) (rooms s)\<rparr>)"
    by (simp add: find_socket_join)
next
  assume "(\<forall>room'. c \<noteq> LeaveRoom i room') \<and> c \<noteq> Disconnect i"
  with assms show "\<exists>s'. find_socket i (exec e c st) = Some s' \<and> rooms s \<subseteq> rooms s'"
    by (simp add: exec_keeps_memberships)
next
  from assms show "find_socket i (leaveRoom i room st)
             = Some (case room of
                       Str r' \<Rightarrow> if r' \<noteq> [] then s\<lparr>rooms := rooms s - {trim r'}\<rparr> else s
                     | NotString \<Rightarrow> s)"
    by (rule leaveRoom_membership)
next
  show "find_socket i (disconnect i st) = None" by (rule find_socket_disconnect)
qed

theorem joinRoom_keeps_memberships_witness:
  "find_socket ''s1'' lobby = Some alice_sock
   \<and> trim ''random'' \<noteq> [] \<and> (readyState env0 = 1 \<or> connectDB_ok env0) \<and> room_find env0 = None
   \<and> trim ''random'' \<in> set (room_store lobby)
   \<and> find_socket ''s1'' (fst (joinRoom env0 ''s1'' (Str ''random'') lobby))
       = Some (alice_sock\<lparr>rooms := {''random'', ''s1'', ''general''}\<rparr>)
   \<and> Disconnect ''s2'' \<noteq> Disconnect ''s1''
   \<and> find_socket ''s1'' (exec env0 (Disconnect ''s2'') lobby) = Some alice_sock
   \<and> find_socket ''s1'' (leaveRoom ''s1'' (Str ''general '') lobby)
       = Some (alice_sock\<lparr>rooms := {''s1''}\<rparr>)
   \<and> find_socket ''s1'' (disconnect ''s1'' lobby) = None"
proof -
  have 1: "find_socket ''s1'' lobby = Some alice_sock"
    by (simp add: sample_defs find_socket_def)
  note inst = joinRoom_keeps_memberships [OF 1, of env0 "Str ''general ''" "''random''" "Disconnect ''s2''"]
  have 2: "find_socket ''s1'' (exec env0 (Disconnect ''s2'') lobby) = Some alice_sock"
    by code_simp
  have 3: "rooms alice_sock - {trim ''general ''} = {''s1''}" by code_simp
  from inst 1 2 3 show ?thesis
    by (simp add: sample_defs string_defs)
qed

text \<open>
  The run that reaches \<open>lobby\<close>, followed by a join of the first connection to a second
  room, leaves that connection in both rooms.
\<close>

theorem two_rooms_counterexample:
  "map rooms (sockets (run (lobby_run @ [(env0, JoinRoom ''s1'' (Str ''random''))]) (initial [alice, bob])))
     = [{''s1'', ''general'', ''random''}, {''s2'', ''general''}]
   \<and> ''general'' \<noteq> ''random''"
  by code_simp

section \<open>Sending without membership\<close>

text \<open>
  C2, as the handler has it. A \<open>chatMessage\<close> for a room the connection is not in
  changes nothing and sends nothing but one error to the sender: no message is saved and
  nothing is broadcast, whether the room exists or not. The payload is validated before
  the membership is looked at. So the error is "You must join the room first" (the
  specification's StateError) when room and text are non-empty after trimming and the
  text is at most 1000 characters long, and it is a validation error when the room or
  the text is empty after trimming, the text is not a string, or the text is longer than
  1000 characters after trimming. Which of the two a text gets that is longer than 1000
  characters only before trimming is not stated here.
\<close>

theorem chatMessage_not_member:
  assumes "find_socket i st = Some s" and "trim r \<notin> rooms s"
  shows "\<exists>err. chatMessage e i (Data (Str r) text') st = (st, [Emit i (ErrorEv err)])
           \<and> (trim r \<noteq> [] \<and> (\<exists>t. text' = Str t \<and> trim t \<noteq> [] \<and> length t \<le> 1000)
                \<longrightarrow> err = You_must_join_the_room_first \<and> kind_of err = StateError)
           \<and> (trim r = [] \<or> text' = NotString
                \<or> (\<exists>t. text' = Str t \<and> (trim t = [] \<or> 1000 < length (trim t)))
                \<longrightarrow> kind_of err = ValidationError)"
proof (cases text')
  case NotString
  with assms show ?thesis
    by (auto simp: chatMessage_def Let_def socket_emit_def trim_Nil)
next
  case (Str t)
  have "1000 < length (trim t) \<Longrightarrow> 1000 < length t"
    using length_trim [of t] by simp
  with Str assms show ?thesis
    by (auto simp: chatMessage_def Let_def socket_emit_def trim_Nil)
qed

theorem chatMessage_not_member_witness:
  "find_socket ''s1'' lobby = Some alice_sock \<and> trim ''random'' \<notin> rooms alice_sock
   \<and> trim ''random'' \<noteq> [] \<and> trim ''hi'' \<noteq> [] \<and> length ''hi'' \<le> 1000
   \<and> chatMessage env0 ''s1'' (Data (Str ''random'') (Str ''hi'')) lobby
       = (lobby, [Emit ''s1'' (ErrorEv You_must_join_the_room_first)])
   \<and> trim ''  '' \<notin> rooms alice_sock \<and> trim ''  '' = []
   \<and> chatMessage env0 ''s1'' (Data (Str ''  '') (Str ''hi'')) lobby
       = (lobby, [Emit ''s1'' (ErrorEv Invalid_room_name)])"
proof -
  have 1: "find_socket ''s1'' lobby = Some alice_sock" "trim ''random'' \<notin> rooms alice_sock"
    "trim ''  '' \<notin> rooms alice_sock" "trim ''  '' = []" "trim ''random'' \<noteq> []"
    "trim ''hi'' \<noteq> []"
    by (simp_all add: sample_defs string_defs find_socket_def)
  from chatMessage_not_member [OF 1(1,2), of env0 "Str ''hi''"] 1
  have 2: "chatMessage env0 ''s1'' (Data (Str ''random'') (Str ''hi'')) lobby
       = (lobby, [Emit ''s1'' (ErrorEv You_must_join_the_room_first)])"
    by auto
  have 3: "chatMessage env0 ''s1'' (Data (Str ''  '') (Str ''hi'')) lobby
       = (lobby, [Emit ''s1'' (ErrorEv Invalid_room_name)])"
    by code_simp
  from 1 2 3 show ?thesis by simp
qed

text \<open>A blank text sent to a room the connection is not in is answered with a validation error.\<close>

theorem not_member_validation_counterexample:
  "find_socket ''s1'' lobby = Some alice_sock \<and> ''random'' \<notin> rooms alice_sock
   \<and> chatMessage env0 ''s1'' (Data (Str ''random'') (Str '' '')) lobby
       = (lobby, [Emit ''s1'' (ErrorEv Message_text_is_required)])
   \<and> kind_of Message_text_is_required \<noteq> StateError"
  by code_simp

section \<open>Notifying the room of a join\<close>

lemma joinRoom_success:
  assumes "find_socket i st = Some s"
    and "trim r \<noteq> []"
    and "readyState e = 1 \<or> connectDB_ok e"
    and "room_find e = None"
    and "trim r \<in> set (room_store st)"
    and "message_find_ok e"
  shows "joinRoom e i (Str r) st
           = (socket_join i (trim r) st,
              [Room_findOne (trim r), Message_find (trim r),
               Emit i (RoomHistory (trim r) (recent (trim r) 50 (message_store st)))]
              @ map (\<lambda>j. Emit j (UserJoined (username s) (trim r)))
                  (filter (\<lambda>j. j \<noteq> i) (in_room (trim r) st)))"
proof -
  from assms(2) have "r \<noteq> []" by (auto simp: trim_Nil)
  moreover have "message_store (socket_join i (trim r) st) = message_store st"
    by (simp add: socket_join_def)
  ultimately show ?thesis using assms
    by (auto simp: joinRoom_def Let_def socket_emit_def socket_to_emit_def others_in_room_join)
qed

text \<open>
  C10. After a successful join the events delivered are exactly these: the room history to
  the joining connection, and \<open>userJoined\<close> to every other connection that is in the
  room. The joining connection gets no \<open>userJoined\<close> for its own join.
\<close>

theorem userJoined_to_others:
  assumes "find_socket i st = Some s"
    and "trim r \<noteq> []"
    and "readyState e = 1 \<or> connectDB_ok e"
    and "room_find e = None"
    and "trim r \<in> set (room_store st)"
    and "message_find_ok e"
  shows "(\<forall>j ev. Emit j ev \<in> set (snd (joinRoom e i (Str r) st)) \<longleftrightarrow>
            (j = i \<and> ev = RoomHistory (trim r) (recent (trim r) 50 (message_store st)))
            \<or> (j \<noteq> i \<and> (\<exists>s' \<in> set (sockets st). sid s' = j \<and> trim r \<in> rooms s')
                \<and> ev = UserJoined (username s) (trim r)))"
  by (auto simp: joinRoom_success [OF assms] in_room_iff)

theorem userJoined_to_others_witness:
  "find_socket ''s1'' lobby = Some alice_sock
   \<and> trim ''general'' \<noteq> [] \<and> (readyState env0 = 1 \<or> connectDB_ok env0) \<and> room_find env0 = None
   \<and> trim ''general'' \<in> set (room_store lobby) \<and> message_find_ok env0
   \<and> Emit ''s2'' (UserJoined ''alice'' ''general'') \<in> set (snd (joinRoom env0 ''s1'' (Str ''general'') lobby))
   \<and> Emit ''s1'' (UserJoined ''alice'' ''general'') \<notin> set (snd (joinRoom env0 ''s1'' (Str ''general'') lobby))
   \<and> Emit ''s1'' (RoomHistory ''general'' []) \<in> set (snd (joinRoom env0 ''s1'' (Str ''general'') lobby))"
proof -
  have h: "find_socket ''s1'' lobby = Some alice_sock" "trim ''general'' \<noteq> []"
    "readyState env0 = 1 \<or> connectDB_ok env0" "room_find env0 = None"
    "trim ''general'' \<in> set (room_store lobby)" "message_find_ok env0"
    by (simp_all add: sample_defs string_defs find_socket_def)
  have t: "trim ''general'' = ''general''" by (simp add: string_defs)
  have r: "recent ''general'' 50 (message_store lobby) = []" by code_simp
  have u: "username alice_sock = ''alice''" by (simp add: alice_sock_def)
  have b: "bob_sock \<in> set (sockets lobby)" "sid bob_sock = ''s2''" "''general'' \<in> rooms bob_sock"
    by (simp_all add: sample_defs)
  note inst = userJoined_to_others [OF h, unfolded t r u]
  from inst b have 1: "Emit ''s2'' (UserJoined ''alice'' ''general'') \<in> set (snd (joinRoom env0 ''s1'' (Str ''general'') lobby))"
    by blast
  from inst have 2: "Emit ''s1'' (UserJoined ''alice'' ''general'') \<notin> set (snd (joinRoom env0 ''s1'' (Str ''general'') lobby))"
    by blast
  from inst have 3: "Emit ''s1'' (RoomHistory ''general'' []) \<in> set (snd (joinRoom env0 ''s1'' (Str ''general'') lobby))"
    by blast
  from h 1 2 3 show ?thesis by simp
qed

section \<open>Saving before broadcasting\<close>

lemma in_room_message_store [simp]: "in_room r (st\<lparr>message_store := ms\<rparr>) = in_room r st"
  by (simp add: in_room_def)

lemma chatMessage_broadcast:
  assumes "find_socket i st = Some s"
    and "trim (username s) = username s"
    and "Emit j (MessageEv p) \<in> set (snd (chatMessage e i d st))"
  shows "save_ok e
         \<and> (\<exists>r t. d = Data (Str r) (Str t)
               \<and> p = \<lparr>m_id = new_id e, m_room = trim r, m_username = username s,
                       m_text = trim t, m_ts = now e\<rparr>)
         \<and> message_store (fst (chatMessage e i d st)) = message_store st @ [p]
         \<and> snd (chatMessage e i d st)
             = Message_save p # map (\<lambda>k. Emit k (MessageEv p)) (in_room (m_room p) st)"
proof (cases d)
  case Nullish
  with assms show ?thesis by (simp add: chatMessage_def socket_emit_def)
next
  case (Data room text')
  show ?thesis
  proof (cases room)
    case NotString
    with Data assms show ?thesis by (simp add: chatMessage_def socket_emit_def)
  next
    case (Str r)
    show ?thesis
    proof (cases text')
      case NotString
      with Data Str assms show ?thesis
        by (simp add: chatMessage_def socket_emit_def split: if_splits)
    next
      case t: (Str t)
      with Data Str assms show ?thesis
        by (auto simp: chatMessage_def Let_def socket_emit_def io_to_emit_def new_Message_def
              trim_trim split: if_splits)
    qed
  qed
qed

lemma reachable_username:
  assumes "\<forall>u \<in> set us. valid_username (u_username u)"
    and "find_socket i (run cs (initial us)) = Some s"
  shows "trim (username s) = username s"
proof -
  from assms(2) have "s \<in> set (sockets (run cs (initial us)))" by (simp add: find_socket_sid)
  with reachable_consistent [of cs us]
  obtain u where "u \<in> set (user_store (run cs (initial us)))" "username s = u_username u"
    unfolding consistent_def by blast
  with assms(1) have "valid_username (username s)" by (simp add: reachable_users)
  then show ?thesis by (rule valid_username_trim)
qed

text \<open>
  C6. In a state the server has reached, with usernames that obey the User schema: if a
  \<open>chatMessage\<close> delivers a \<open>message\<close> event with payload \<open>p\<close> to anyone, then the
  save succeeded, the saved document is \<open>p\<close> itself (the trimmed room, the sender's
  username, the trimmed text, the server's clock and the new identifier), it is the last
  message of the store, and the handler's effects are that save followed by the delivery
  of \<open>p\<close> to the connections in the room, in this order. A failed save broadcasts
  nothing.
\<close>

theorem broadcast_after_save:
  assumes "\<forall>u \<in> set us. valid_username (u_username u)"
    and "find_socket i (run cs (initial us)) = Some s"
    and "Emit j (MessageEv p) \<in> set (snd (chatMessage e i d (run cs (initial us))))"
  shows "save_ok e
         \<and> (\<exists>r t. d = Data (Str r) (Str t)
               \<and> p = \<lparr>m_id = new_id e, m_room = trim r, m_username = username s,
                       m_text = trim t, m_ts = now e\<rparr>)
         \<and> message_store (fst (chatMessage e i d (run cs (initial us))))
             = message_store (run cs (initial us)) @ [p]
         \<and> snd (chatMessage e i d (run cs (initial us)))
             = Message_save p # map (\<lambda>k. Emit k (MessageEv p)) (in_room (m_room p) (run cs (initial us)))"
  using assms(2) reachable_username [OF assms(1,2)] assms(3) by (rule chatMessage_broadcast)

theorem broadcast_after_save_witness:
  "valid_username (u_username alice) \<and> valid_username (u_username bob)
   \<and> find_socket ''s1'' (run lobby_run (initial [alice, bob])) = Some alice_sock
   \<and> Emit ''s2'' (MessageEv \<lparr>m_id = 7, m_room = ''general'', m_username = ''alice'',
                              m_text = ''hello'', m_ts = 1700000000000\<rparr>)
       \<in> set (snd (chatMessage env0 ''s1'' (Data (Str '' general'') (Str ''hello '')) (run lobby_run (initial [alice, bob]))))
   \<and> snd (chatMessage env0 ''s1'' (Data (Str '' general'') (Str ''hello '')) (run lobby_run (initial [alice, bob])))
       = [Message_save \<lparr>m_id = 7, m_room = ''general'', m_username = ''alice'',
                         m_text = ''hello'', m_ts = 1700000000000\<rparr>,
          Emit ''s1'' (MessageEv \<lparr>m_id = 7, m_room = ''general'', m_username = ''alice'',
                                   m_text = ''hello'', m_ts = 1700000000000\<rparr>),
          Emit ''s2'' (MessageEv \<lparr>m_id = 7, m_room = ''general'', m_username = ''alice'',
                                   m_text = ''hello'', m_ts = 1700000000000\<rparr>)]"
proof -
  have 1: "\<forall>u \<in> set [alice, bob]. valid_username (u_username u)" by code_simp
  have 2: "find_socket ''s1'' (run lobby_run (initial [alice, bob])) = Some alice_sock"
    by (simp add: lobby_reachable) (simp add: sample_defs find_socket_def)
  have 3: "Emit ''s2'' (MessageEv \<lparr>m_id = 7, m_room = ''general'', m_username = ''alice'',
                              m_text = ''hello'', m_ts = 1700000000000\<rparr>)
       \<in> set (snd (chatMessage env0 ''s1'' (Data (Str '' general'') (Str ''hello '')) (run lobby_run (initial [alice, bob]))))"
    by code_simp
  have 4: "in_room ''general'' (run lobby_run (initial [alice, bob])) = [''s1'', ''s2'']"
    by code_simp
  from broadcast_after_save [OF 1 2 3] 1 2 3 4 show ?thesis by simp
qed

section \<open>The length of a message text\<close>

lemma trim_padded:
  assumes "\<not> is_space c" and "0 < n"
  shows "trim (replicate n c @ '' '') = replicate n c"
proof -
  from assms obtain k where n: "n = Suc k" by (cases n) auto
  have sp: "is_space CHR '' ''" by (simp add: is_space_def)
  from assms(1) have a: "dropWhile is_space (replicate n c @ '' '') = replicate n c @ '' ''"
    by (simp add: n)
  have "rev (replicate n c @ '' '') = CHR '' '' # replicate n c" by simp
  then have b: "dropWhile is_space (rev (replicate n c @ '' '')) = replicate n c"
    using sp assms(1) by (simp add: n)
  show ?thesis by (simp only: trim_def a b rev_replicate)
qed

lemma trim_padded_text: "trim padded_text = replicate 1000 (CHR ''a'')"
  unfolding padded_text_def by (rule trim_padded) (simp_all add: is_space_def)

lemma chatMessage_long_text:
  assumes "find_socket i st = Some s" and "trim r \<noteq> []" and "trim t \<noteq> []" and "length t > 1000"
  shows "chatMessage e i (Data (Str r) (Str t)) st
           = (st, [Emit i (ErrorEv Message_cannot_exceed_1000_characters)])"
  using assms by (auto simp: chatMessage_def socket_emit_def trim_Nil)

text \<open>
  What the two paths accept. The socket handler saves the message of a member exactly when
  the text is non-empty after trimming and at most 1000 characters long before trimming;
  the REST route bounds the trimmed length.
\<close>

lemma chatMessage_text_accepted:
  assumes "find_socket i st = Some s" and "trim (username s) \<noteq> []"
    and "trim r \<noteq> []" and "trim r \<in> rooms s" and "save_ok e"
  shows "(\<exists>m. Message_save m \<in> set (snd (chatMessage e i (Data (Str r) (Str t)) st)))
           \<longleftrightarrow> trim t \<noteq> [] \<and> length t \<le> 1000"
proof -
  from assms(3) have r: "r \<noteq> []" by (auto simp: trim_Nil)
  have l: "length t \<le> 1000 \<Longrightarrow> length (trim t) \<le> 1000"
    using length_trim [of t] by simp
  have n: "trim t \<noteq> [] \<Longrightarrow> t \<noteq> []" by (auto simp: trim_Nil)
  show ?thesis
  proof (cases "trim t \<noteq> [] \<and> length t \<le> 1000")
    case True
    with assms r l n show ?thesis
      by (auto simp: chatMessage_def Let_def new_Message_def validate_message_def trim_trim)
  next
    case False
    with assms r show ?thesis
      by (auto simp: chatMessage_def socket_emit_def)
  qed
qed

lemma post_message_text_bound:
  "post_message_errors b = [] \<longleftrightarrow>
     sanitized (b_room b) \<noteq> [] \<and> 1 \<le> length (sanitized (b_text b)) \<and> length (sanitized (b_text b)) \<le> 1000"
  by (cases "sanitized (b_text b)") (auto simp: post_message_errors_def)

text \<open>
  C7 at a text of 1000 letters and one trailing space, sent by a connection that is in
  the room: 1001 characters, 1000 after trimming. The socket handler compares the
  untrimmed length with 1000 and rejects it; the REST route, which trims before it
  checks the length, stores it.
\<close>

theorem padded_text_rejected:
  "length padded_text = 1001
   \<and> length (trim padded_text) = 1000
   \<and> find_socket ''s1'' lobby = Some alice_sock
   \<and> ''general'' \<in> rooms alice_sock
   \<and> chatMessage env0 ''s1'' (Data (Str ''general'') (Str padded_text)) lobby
       = (lobby, [Emit ''s1'' (ErrorEv Message_cannot_exceed_1000_characters)])
   \<and> post_message_errors \<lparr>b_room = Some ''general'', b_text = Some padded_text\<rparr> = []
   \<and> message_store (fst (post_message env0 (Some ''Bearer token-alice'')
                             \<lparr>b_room = Some ''general'', b_text = Some padded_text\<rparr> lobby))
       = [\<lparr>m_id = 7, m_room = ''general'', m_username = ''alice'',
           m_text = replicate 1000 (CHR ''a''), m_ts = 1700000000000\<rparr>]"
proof -
  have l: "length padded_text = 1001" by (simp add: padded_text_def)
  have f: "find_socket ''s1'' lobby = Some alice_sock" "''general'' \<in> rooms alice_sock"
    by (simp_all add: sample_defs find_socket_def)
  have g: "trim ''general'' = ''general''" by (simp add: string_defs)
  have a: "trim ''alice'' = ''alice''" by (simp add: string_defs)
  have c: "chatMessage env0 ''s1'' (Data (Str ''general'') (Str padded_text)) lobby
       = (lobby, [Emit ''s1'' (ErrorEv Message_cannot_exceed_1000_characters)])"
    using f(1) by (rule chatMessage_long_text) (simp_all add: g trim_padded_text l)
  have s: "sanitized (Some padded_text) = replicate 1000 (CHR ''a'')" "sanitized (Some ''general'') = ''general''"
    by (simp_all add: sanitized_def trim_padded_text g)
  have tr: "trim (replicate 1000 (CHR ''a'')) = replicate 1000 (CHR ''a'')"
    using trim_trim [of padded_text] by (simp add: trim_padded_text)
  have e: "post_message_errors \<lparr>b_room = Some ''general'', b_text = Some padded_text\<rparr> = []"
    by (simp add: post_message_errors_def s)
  have au: "authMiddleware env0 (Some ''Bearer token-alice'') lobby = Inr alice"
    by (simp add: authMiddleware_def findById_def sample_defs)
  have p: "message_store (fst (post_message env0 (Some ''Bearer token-alice'')
                             \<lparr>b_room = Some ''general'', b_text = Some padded_text\<rparr> lobby))
       = [\<lparr>m_id = 7, m_room = ''general'', m_username = ''alice'',
           m_text = replicate 1000 (CHR ''a''), m_ts = 1700000000000\<rparr>]"
    by (simp add: post_message_def e au s Let_def new_Message_def validate_message_def tr g a)
       (simp add: sample_defs a)
  from l f c e p show ?thesis by (simp add: trim_padded_text)
qed

section \<open>Validation of the room name in a join\<close>

lemma reachable_room_names:
  "n \<in> set (room_store (run cs (initial us))) \<Longrightarrow> valid_room_name n"
  using reachable_consistent [of cs us] unfolding consistent_def by blast

text \<open>
  C8, as the handler has it. Before the room collection is queried, \<open>joinRoom\<close> checks
  only that the name is a string that is not empty after trimming; otherwise it answers
  "Invalid room name" (a validation error) and queries nothing. The name grammar is
  enforced where rooms are created, not in the join: a non-empty name that violates it
  is looked up like any other and, since every stored room name obeys the grammar, the
  join fails with "Room ... does not exist" (the specification's NotFoundError).
\<close>

theorem joinRoom_validation:
  assumes "find_socket i (run cs (initial us)) = Some s"
  shows "(room = NotString \<or> (\<exists>r. room = Str r \<and> trim r = [])
            \<longrightarrow> joinRoom e i room (run cs (initial us))
                  = (run cs (initial us), [Emit i (ErrorEv Invalid_room_name)])
                \<and> kind_of Invalid_room_name = ValidationError)
         \<and> (\<forall>r. room = Str r \<and> trim r \<noteq> [] \<and> \<not> valid_room_name (trim r)
                  \<and> (readyState e = 1 \<or> connectDB_ok e) \<and> room_find e = None
              \<longrightarrow> joinRoom e i room (run cs (initial us))
                    = (run cs (initial us),
                       [Room_findOne (trim r), Emit i (ErrorEv (Room_does_not_exist (trim r)))])
                  \<and> kind_of (Room_does_not_exist (trim r)) = NotFoundError)"
proof (intro conjI allI impI)
  assume "room = NotString \<or> (\<exists>r. room = Str r \<and> trim r = [])"
  with assms show "joinRoom e i room (run cs (initial us))
                  = (run cs (initial us), [Emit i (ErrorEv Invalid_room_name)])"
    by (auto simp: joinRoom_def socket_emit_def)
next
  show "kind_of Invalid_room_name = ValidationError" by simp
next
  fix r
  assume a: "room = Str r \<and> trim r \<noteq> [] \<and> \<not> valid_room_name (trim r)
                  \<and> (readyState e = 1 \<or> connectDB_ok e) \<and> room_find e = None"
  then have "trim r \<notin> set (room_store (run cs (initial us)))"
    using reachable_room_names by blast
  moreover from a have "r \<noteq> []" by (auto simp: trim_Nil)
  ultimately show "joinRoom e i room (run cs (initial us))
                    = (run cs (initial us),
                       [Room_findOne (trim r), Emit i (ErrorEv (Room_does_not_exist (trim r)))])"
    using a assms by (auto simp: joinRoom_def socket_emit_def Let_def)
next
  fix r show "kind_of (Room_does_not_exist (trim r)) = NotFoundError" by simp
qed

theorem joinRoom_validation_witness:
  "find_socket ''s1'' (run lobby_run (initial [alice, bob])) = Some alice_sock
   \<and> trim ''   '' = []
   \<and> joinRoom env0 ''s1'' (Str ''   '') (run lobby_run (initial [alice, bob]))
       = (run lobby_run (initial [alice, bob]), [Emit ''s1'' (ErrorEv Invalid_room_name)])
   \<and> trim ''two words'' \<noteq> [] \<and> \<not> valid_room_name (trim ''two words'')
   \<and> (readyState env0 = 1 \<or> connectDB_ok env0) \<and> room_find env0 = None
   \<and> joinRoom env0 ''s1'' (Str ''two words'') (run lobby_run (initial [alice, bob]))
       = (run lobby_run (initial [alice, bob]),
          [Room_findOne ''two words'', Emit ''s1'' (ErrorEv (Room_does_not_exist ''two words''))])"
proof -
  have 1: "find_socket ''s1'' (run lobby_run (initial [alice, bob])) = Some alice_sock"
    by (simp add: lobby_reachable) (simp add: sample_defs find_socket_def)
  have 2: "trim ''   '' = []" "trim ''two words'' = ''two words''" "\<not> valid_room_name ''two words''"
    by (simp_all add: string_defs)
  have 3: "readyState env0 = 1" "room_find env0 = None" by (simp_all add: env0_def)
  from joinRoom_validation [OF 1, of "Str ''   ''" env0] 2
  have 4: "joinRoom env0 ''s1'' (Str ''   '') (run lobby_run (initial [alice, bob]))
       = (run lobby_run (initial [alice, bob]), [Emit ''s1'' (ErrorEv Invalid_room_name)])"
    by simp
  from joinRoom_validation [OF 1, of "Str ''two words''" env0] 2 3
  have 5: "joinRoom env0 ''s1'' (Str ''two words'') (run lobby_run (initial [alice, bob]))
       = (run lobby_run (initial [alice, bob]),
          [Room_findOne ''two words'', Emit ''s1'' (ErrorEv (Room_does_not_exist ''two words''))])"
    by simp
  from 1 2 3 4 5 show ?thesis by simp
qed

text \<open>A name with spaces and an exclamation mark is looked up and reported as not existing.\<close>

theorem grammar_not_checked_counterexample:
  "find_socket ''s1'' lobby = Some alice_sock
   \<and> \<not> valid_room_name ''no such room!''
   \<and> joinRoom env0 ''s1'' (Str ''no such room!'') lobby
       = (lobby, [Room_findOne ''no such room!'',
                  Emit ''s1'' (ErrorEv (Room_does_not_exist ''no such room!''))])
   \<and> kind_of (Room_does_not_exist ''no such room!'') \<noteq> ValidationError"
  by code_simp

section \<open>The room of a stored message\<close>

lemma chatMessage_saved_room:
  assumes "find_socket i st = Some s"
    and "Message_save m \<in> set (snd (chatMessage e i d st))"
  shows "m_room m \<in> rooms s"
proof (cases d)
  case Nullish
  with assms show ?thesis by (simp add: chatMessage_def socket_emit_def)
next
  case (Data room text')
  show ?thesis
  proof (cases room)
    case NotString
    with Data assms show ?thesis by (simp add: chatMessage_def socket_emit_def)
  next
    case (Str r)
    show ?thesis
    proof (cases text')
      case NotString
      with Data Str assms show ?thesis
        by (simp add: chatMessage_def socket_emit_def split: if_splits)
    next
      case t: (Str t)
      with Data Str assms show ?thesis
        by (auto simp: chatMessage_def Let_def socket_emit_def io_to_emit_def new_Message_def
              trim_trim split: if_splits)
    qed
  qed
qed

lemma post_message_stores:
  assumes "post_message_errors b = []"
    and "authMiddleware e h st = Inr u"
    and "trim (u_username u) \<noteq> []"
    and "save_ok e"
  shows "message_store (fst (post_message e h b st))
           = message_store st @ [\<lparr>m_id = new_id e, m_room = sanitized (b_room b),
                                   m_username = trim (u_username u),
                                   m_text = sanitized (b_text b), m_ts = now e\<rparr>]"
proof -
  have t: "trim (sanitized v) = sanitized v" for v by (simp add: sanitized_def trim_trim)
  from assms(1) have "sanitized (b_room b) \<noteq> []" "sanitized (b_text b) \<noteq> []"
    "length (sanitized (b_text b)) \<le> 1000"
    by (auto simp: post_message_text_bound)
  with assms show ?thesis
    by (simp add: post_message_def Let_def new_Message_def validate_message_def t)
qed

text \<open>
  C4, as the code has it. A message saved by the socket handler \<open>chatMessage\<close> carries
  a room the sending connection is in; in every state the server reaches this is a room
  of the room collection or the connection's own identifier (the room Socket.io puts
  every socket in). \<open>POST /api/chat/messages\<close> never consults the room collection: a
  request that passes validation and authentication stores its message under the
  trimmed room name it gives, in any state.
\<close>

theorem stored_message_room:
  assumes "find_socket i (run cs (initial us)) = Some s"
  shows "(Message_save m \<in> set (snd (chatMessage e i d (run cs (initial us))))
            \<longrightarrow> m_room m \<in> rooms s
                \<and> (m_room m \<in> set (room_store (run cs (initial us))) \<or> m_room m = i))
         \<and> (post_message_errors b = [] \<and> authMiddleware e h st = Inr u
              \<and> trim (u_username u) \<noteq> [] \<and> save_ok e
            \<longrightarrow> message_store (fst (post_message e h b st))
                  = message_store st @ [\<lparr>m_id = new_id e, m_room = sanitized (b_room b),
                                          m_username = trim (u_username u),
                                          m_text = sanitized (b_text b), m_ts = now e\<rparr>])"
proof (intro conjI impI)
  assume a: "Message_save m \<in> set (snd (chatMessage e i d (run cs (initial us))))"
  with assms show r: "m_room m \<in> rooms s" by (rule chatMessage_saved_room)
  from assms have s: "s \<in> set (sockets (run cs (initial us)))" "sid s = i"
    by (simp_all add: find_socket_sid)
  with reachable_consistent [of cs us]
  have "rooms s \<subseteq> insert i (set (room_store (run cs (initial us))))"
    unfolding consistent_def by blast
  with r show "m_room m \<in> set (room_store (run cs (initial us))) \<or> m_room m = i" by blast
next
  assume "post_message_errors b = [] \<and> authMiddleware e h st = Inr u
              \<and> trim (u_username u) \<noteq> [] \<and> save_ok e"
  then show "message_store (fst (post_message e h b st))
                  = message_store st @ [\<lparr>m_id = new_id e, m_room = sanitized (b_room b),
                                          m_username = trim (u_username u),
                                          m_text = sanitized (b_text b), m_ts = now e\<rparr>]"
    by (simp add: post_message_stores)
qed

theorem stored_message_room_witness:
  "find_socket ''s1'' (run lobby_run (initial [alice, bob])) = Some alice_sock
   \<and> Message_save \<lparr>m_id = 7, m_room = ''general'', m_username = ''alice'',
                    m_text = ''hello'', m_ts = 1700000000000\<rparr>
       \<in> set (snd (chatMessage env0 ''s1'' (Data (Str ''general'') (Str ''hello'')) (run lobby_run (initial [alice, bob]))))
   \<and> ''general'' \<in> rooms alice_sock
   \<and> ''general'' \<in> set (room_store (run lobby_run (initial [alice, bob])))
   \<and> post_message_errors \<lparr>b_room = Some ''ghost'', b_text = Some ''boo''\<rparr> = []
   \<and> authMiddleware env0 (Some ''Bearer token-bob'') (initial [alice, bob]) = Inr bob
   \<and> trim (u_username bob) \<noteq> [] \<and> save_ok env0
   \<and> message_store (fst (post_message env0 (Some ''Bearer token-bob'')
                             \<lparr>b_room = Some ''ghost'', b_text = Some ''boo''\<rparr> (initial [alice, bob])))
       = [\<lparr>m_id = 7, m_room = ''ghost'', m_username = ''bob'', m_text = ''boo'', m_ts = 1700000000000\<rparr>]"
proof -
  have 1: "find_socket ''s1'' (run lobby_run (initial [alice, bob])) = Some alice_sock"
    by (simp add: lobby_reachable) (simp add: sample_defs find_socket_def)
  have 2: "Message_save \<lparr>m_id = 7, m_room = ''general'', m_username = ''alice'',
                    m_text = ''hello'', m_ts = 1700000000000\<rparr>
       \<in> set (snd (chatMessage env0 ''s1'' (Data (Str ''general'') (Str ''hello'')) (run lobby_run (initial [alice, bob]))))"
    by code_simp
  have 3: "post_message_errors \<lparr>b_room = Some ''ghost'', b_text = Some ''boo''\<rparr> = []"
    by code_simp
  have 4: "authMiddleware env0 (Some ''Bearer token-bob'') (initial [alice, bob]) = Inr bob"
    by (simp add: authMiddleware_def findById_def sample_defs)
  have 5: "trim (u_username bob) = ''bob''" "save_ok env0" "sanitized (Some ''ghost'') = ''ghost''"
    "sanitized (Some ''boo'') = ''boo''" "new_id env0 = 7" "now env0 = 1700000000000"
    by (simp_all add: sample_defs string_defs)
  have 6: "room_store (run lobby_run (initial [alice, bob])) = [''general'', ''random'']"
    by (simp add: lobby_reachable) (simp add: lobby_def)
  note inst = stored_message_room [OF 1, of _ env0 _ "\<lparr>b_room = Some ''ghost'', b_text = Some ''boo''\<rparr>"
      "Some ''Bearer token-bob''" "initial [alice, bob]" bob]
  from inst 2 have 7: "''general'' \<in> rooms alice_sock" by fastforce
  from inst [of "\<lparr>m_id = 7, m_room = ''general'', m_username = ''alice'',
                    m_text = ''hello'', m_ts = 1700000000000\<rparr>" "Data (Str ''general'') (Str ''hello'')"] 3 4 5
  have 8: "message_store (fst (post_message env0 (Some ''Bearer token-bob'')
                             \<lparr>b_room = Some ''ghost'', b_text = Some ''boo''\<rparr> (initial [alice, bob])))
       = [\<lparr>m_id = 7, m_room = ''ghost'', m_username = ''bob'', m_text = ''boo'', m_ts = 1700000000000\<rparr>]"
    by (simp add: initial_def)
  from 1 2 3 4 5 6 7 8 show ?thesis by simp
qed

text \<open>The REST route stores a message for a room that does not exist.\<close>

theorem ghost_room_counterexample:
  "message_store (fst (post_message env0 (Some ''Bearer token-bob'')
                         \<lparr>b_room = Some ''ghost'', b_text = Some ''boo''\<rparr> lobby))
     = [\<lparr>m_id = 7, m_room = ''ghost'', m_username = ''bob'', m_text = ''boo'', m_ts = 1700000000000\<rparr>]
   \<and> ''ghost'' \<notin> set (room_store lobby)"
  by code_simp

text \<open>A connection can send to the room named by its own identifier without any join.\<close>

lemma own_room_message:
  "message_store (fst (chatMessage env0 ''s1'' (Data (Str ''s1'') (Str ''note'')) lobby))
     = [\<lparr>m_id = 7, m_room = ''s1'', m_username = ''alice'', m_text = ''note'', m_ts = 1700000000000\<rparr>]
   \<and> ''s1'' \<notin> set (room_store lobby)"
  by code_simp

section \<open>Authentication of a connection\<close>

lemma findById_distinct:
  "u \<in> set us \<Longrightarrow> distinct (map u_id us) \<Longrightarrow> findById (u_id u) us = Some u"
  unfolding findById_def by (induction us) auto

lemma findById_id: "findById x us = Some u \<Longrightarrow> u_id u = x \<and> u \<in> set us"
  by (auto simp: findById_def find_Some_iff)

lemma socket_auth_success:
  assumes "handshake_token h = Some token" and "token \<noteq> []"
    and "jwt_verify e token = Decoded d" and "user_find e = None"
    and "findById (c_userId d) (user_store st) = Some u"
  shows "socket_auth e h st = Inr (c_userId d, u_username u)"
  using assms findById_id [OF assms(5)] by (simp add: socket_auth_def)

lemma socket_auth_failure:
  "(\<exists>err. socket_auth e h st = Inl err) \<longleftrightarrow>
     \<not> (\<exists>t d u. handshake_token h = Some t \<and> t \<noteq> [] \<and> jwt_verify e t = Decoded d
                \<and> user_find e = None \<and> findById (c_userId d) (user_store st) = Some u)"
  by (auto simp: socket_auth_def split: option.splits verify_result.splits)

lemma connect_refused: "socket_auth e h st = Inl err \<Longrightarrow> connect e i h st = (st, Some err)"
  by (simp add: connect_def)

text \<open>
  C9, as the middleware has it. A handshake is accepted exactly when it carries a token,
  the token verifies, the lookup does not throw and the user id of the payload is the id
  of a stored user. The session then has the user id of the token and the username
  stored for that user; the username in the token is not read. For a token that
  carries the stored user's own payload the two usernames are the same, and the session
  has the identity of the credential. In every other case the handshake is refused, the
  connection attempt ends with that error and the state is as it was: no socket is
  added. A missing token, an invalid token, an expired token and an unknown user each
  have their own error.
\<close>

theorem socket_auth_identity:
  "(handshake_token h = Some token \<and> token \<noteq> [] \<and> jwt_verify e token = Decoded d
        \<and> user_find e = None \<and> findById (c_userId d) (user_store st) = Some u'
       \<longrightarrow> u_id u' = c_userId d \<and> u' \<in> set (user_store st)
           \<and> socket_auth e h st = Inr (c_userId d, u_username u')
           \<and> (i \<notin> set (map sid (sockets st))
                \<longrightarrow> connect e i h st
                      = (st\<lparr>sockets := sockets st
                              @ [\<lparr>sid = i, userId = c_userId d, username = u_username u',
                                  rooms = {i}\<rparr>]\<rparr>, None)))
   \<and> (u \<in> set (user_store st) \<and> distinct (map u_id (user_store st))
      \<and> handshake_token h = Some token \<and> token \<noteq> []
      \<and> jwt_verify e token = Decoded (token_payload u) \<and> user_find e = None
     \<longrightarrow> socket_auth e h st = Inr (c_userId (token_payload u), c_username (token_payload u))
         \<and> (i \<notin> set (map sid (sockets st))
              \<longrightarrow> connect e i h st
                    = (st\<lparr>sockets := sockets st
                            @ [\<lparr>sid = i, userId = c_userId (token_payload u),
                                username = c_username (token_payload u), rooms = {i}\<rparr>]\<rparr>, None)))
   \<and> ((\<exists>err. socket_auth e h st = Inl err) \<longleftrightarrow>
        \<not> (\<exists>t d u. handshake_token h = Some t \<and> t \<noteq> [] \<and> jwt_verify e t = Decoded d
                   \<and> user_find e = None \<and> findById (c_userId d) (user_store st) = Some u))
   \<and> (socket_auth e h st = Inl err \<longrightarrow> connect e i h st = (st, Some err))
   \<and> (handshake_token h = None \<or> handshake_token h = Some []
        \<longrightarrow> socket_auth e h st = Inl No_token_provided)
   \<and> (handshake_token h = Some token \<and> token \<noteq> [] \<longrightarrow>
        (jwt_verify e token = JsonWebTokenError \<longrightarrow> socket_auth e h st = Inl Invalid_token)
        \<and> (jwt_verify e token = TokenExpiredError \<longrightarrow> socket_auth e h st = Inl Token_expired)
        \<and> (jwt_verify e token = Decoded d \<and> user_find e = None
              \<and> findById (c_userId d) (user_store st) = None
            \<longrightarrow> socket_auth e h st = Inl User_not_found))"
proof (intro conjI)
  show "handshake_token h = Some token \<and> token \<noteq> [] \<and> jwt_verify e token = Decoded d
        \<and> user_find e = None \<and> findById (c_userId d) (user_store st) = Some u'
       \<longrightarrow> u_id u' = c_userId d \<and> u' \<in> set (user_store st)
           \<and> socket_auth e h st = Inr (c_userId d, u_username u')
           \<and> (i \<notin> set (map sid (sockets st))
                \<longrightarrow> connect e i h st
                      = (st\<lparr>sockets := sockets st
                              @ [\<lparr>sid = i, userId = c_userId d, username = u_username u',
                                  rooms = {i}\<rparr>]\<rparr>, None))"
  proof
    assume a: "handshake_token h = Some token \<and> token \<noteq> [] \<and> jwt_verify e token = Decoded d
        \<and> user_find e = None \<and> findById (c_userId d) (user_store st) = Some u'"
    then have f: "u_id u' = c_userId d \<and> u' \<in> set (user_store st)"
      using findById_id [of "c_userId d" "user_store st" u'] by blast
    from a have s: "socket_auth e h st = Inr (c_userId d, u_username u')"
      by (simp add: socket_auth_success)
    from f s show "u_id u' = c_userId d \<and> u' \<in> set (user_store st)
           \<and> socket_auth e h st = Inr (c_userId d, u_username u')
           \<and> (i \<notin> set (map sid (sockets st))
                \<longrightarrow> connect e i h st
                      = (st\<lparr>sockets := sockets st
                              @ [\<lparr>sid = i, userId = c_userId d, username = u_username u',
                                  rooms = {i}\<rparr>]\<rparr>, None))"
      by (simp add: connect_def)
  qed
next
  show "u \<in> set (user_store st) \<and> distinct (map u_id (user_store st))
      \<and> handshake_token h = Some token \<and> token \<noteq> []
      \<and> jwt_verify e token = Decoded (token_payload u) \<and> user_find e = None
     \<longrightarrow> socket_auth e h st = Inr (c_userId (token_payload u), c_username (token_payload u))
         \<and> (i \<notin> set (map sid (sockets st))
              \<longrightarrow> connect e i h st
                    = (st\<lparr>sockets := sockets st
                            @ [\<lparr>sid = i, userId = c_userId (token_payload u),
                                username = c_username (token_payload u), rooms = {i}\<rparr>]\<rparr>, None))"
  proof
    assume a: "u \<in> set (user_store st) \<and> distinct (map u_id (user_store st))
      \<and> handshake_token h = Some token \<and> token \<noteq> []
      \<and> jwt_verify e token = Decoded (token_payload u) \<and> user_find e = None"
    then have "findById (c_userId (token_payload u)) (user_store st) = Some u"
      by (simp add: token_payload_def findById_distinct)
    with a have "socket_auth e h st = Inr (c_userId (token_payload u), u_username u)"
      by (simp add: socket_auth_success)
    then have s: "socket_auth e h st = Inr (c_userId (token_payload u), c_username (token_payload u))"
      by (simp add: token_payload_def)
    then show "socket_auth e h st = Inr (c_userId (token_payload u), c_username (token_payload u))
         \<and> (i \<notin> set (map sid (sockets st))
              \<longrightarrow> connect e i h st
                    = (st\<lparr>sockets := sockets st
                            @ [\<lparr>sid = i, userId = c_userId (token_payload u),
                                username = c_username (token_payload u), rooms = {i}\<rparr>]\<rparr>, None))"
      by (simp add: connect_def)
  qed
next
  show "(\<exists>err. socket_auth e h st = Inl err) \<longleftrightarrow>
        \<not> (\<exists>t d u. handshake_token h = Some t \<and> t \<noteq> [] \<and> jwt_verify e t = Decoded d
                   \<and> user_find e = None \<and> findById (c_userId d) (user_store st) = Some u)"
    by (rule socket_auth_failure)
next
  show "socket_auth e h st = Inl err \<longrightarrow> connect e i h st = (st, Some err)"
    by (simp add: connect_refused)
next
  show "handshake_token h = None \<or> handshake_token h = Some []
        \<longrightarrow> socket_auth e h st = Inl No_token_provided"
    by (auto simp: socket_auth_def)
next
  show "handshake_token h = Some token \<and> token \<noteq> [] \<longrightarrow>
        (jwt_verify e token = JsonWebTokenError \<longrightarrow> socket_auth e h st = Inl Invalid_token)
        \<and> (jwt_verify e token = TokenExpiredError \<longrightarrow> socket_auth e h st = Inl Token_expired)
        \<and> (jwt_verify e token = Decoded d \<and> user_find e = None
              \<and> findById (c_userId d) (user_store st) = None
            \<longrightarrow> socket_auth e h st = Inl User_not_found)"
    by (auto simp: socket_auth_def)
qed

theorem socket_auth_identity_witness:
  "handshake_token \<lparr>auth_token = Some ''token-renamed'', authorization = None\<rparr> = Some ''token-renamed''
   \<and> ''token-renamed'' \<noteq> []
   \<and> jwt_verify env1 ''token-renamed'' = Decoded \<lparr>c_userId = ''u1'', c_username = ''mallory''\<rparr>
   \<and> user_find env1 = None
   \<and> findById ''u1'' (user_store lobby) = Some alice
   \<and> ''s3'' \<notin> set (map sid (sockets lobby))
   \<and> connect env1 ''s3'' \<lparr>auth_token = Some ''token-renamed'', authorization = None\<rparr> lobby
       = (lobby\<lparr>sockets := sockets lobby
                   @ [\<lparr>sid = ''s3'', userId = ''u1'', username = ''alice'', rooms = {''s3''}\<rparr>]\<rparr>, None)
   \<and> alice \<in> set (user_store lobby) \<and> distinct (map u_id (user_store lobby))
   \<and> handshake_token \<lparr>auth_token = Some ''token-alice'', authorization = None\<rparr> = Some ''token-alice''
   \<and> ''token-alice'' \<noteq> []
   \<and> jwt_verify env0 ''token-alice'' = Decoded (token_payload alice) \<and> user_find env0 = None
   \<and> connect env0 ''s3'' \<lparr>auth_token = Some ''token-alice'', authorization = None\<rparr> lobby
       = (lobby\<lparr>sockets := sockets lobby
                   @ [\<lparr>sid = ''s3'', userId = ''u1'', username = ''alice'', rooms = {''s3''}\<rparr>]\<rparr>, None)
   \<and> handshake_token \<lparr>auth_token = None, authorization = Some ''Bearer forged''\<rparr> = Some ''forged''
   \<and> jwt_verify env0 ''forged'' = JsonWebTokenError
   \<and> connect env0 ''s3'' \<lparr>auth_token = None, authorization = Some ''Bearer forged''\<rparr> lobby
       = (lobby, Some Invalid_token)"
proof -
  let ?h = "\<lparr>auth_token = Some ''token-alice'', authorization = None\<rparr>"
  let ?g = "\<lparr>auth_token = None, authorization = Some ''Bearer forged''\<rparr>"
  let ?k = "\<lparr>auth_token = Some ''token-renamed'', authorization = None\<rparr>"
  let ?d = "\<lparr>c_userId = ''u1'', c_username = ''mallory''\<rparr>"
  have 0: "handshake_token ?k = Some ''token-renamed''" "''token-renamed'' \<noteq> []"
    "jwt_verify env1 ''token-renamed'' = Decoded ?d" "user_find env1 = None"
    "findById (c_userId ?d) (user_store lobby) = Some alice"
    by (simp_all add: env1_def sample_defs handshake_token_def findById_def)
  have 1: "alice \<in> set (user_store lobby)" "distinct (map u_id (user_store lobby))"
    "handshake_token ?h = Some ''token-alice''" "''token-alice'' \<noteq> []"
    "jwt_verify env0 ''token-alice'' = Decoded (token_payload alice)" "user_find env0 = None"
    "''s3'' \<notin> set (map sid (sockets lobby))"
    by (simp_all add: sample_defs handshake_token_def)
  have 2: "handshake_token ?g = Some ''forged''" "''forged'' \<noteq> []"
    "jwt_verify env0 ''forged'' = JsonWebTokenError"
    by (simp_all add: sample_defs handshake_token_def)
  have 3: "c_userId (token_payload alice) = ''u1''" "c_username (token_payload alice) = ''alice''"
    "u_username alice = ''alice''"
    by (simp_all add: token_payload_def alice_def)
  from socket_auth_identity [of ?k "''token-renamed''" env1 ?d lobby alice "''s3''"] 0 1(7) 3
  have 6: "connect env1 ''s3'' ?k lobby
       = (lobby\<lparr>sockets := sockets lobby
                   @ [\<lparr>sid = ''s3'', userId = ''u1'', username = ''alice'', rooms = {''s3''}\<rparr>]\<rparr>, None)"
    by simp
  from socket_auth_identity [of ?h "''token-alice''" env0 _ lobby _ "''s3''" alice] 1 3
  have 4: "connect env0 ''s3'' ?h lobby
       = (lobby\<lparr>sockets := sockets lobby
                   @ [\<lparr>sid = ''s3'', userId = ''u1'', username = ''alice'', rooms = {''s3''}\<rparr>]\<rparr>, None)"
    by simp
  from socket_auth_identity [of ?g "''forged''" env0 _ lobby _ "''s3''" _ Invalid_token] 2
  have 5: "connect env0 ''s3'' ?g lobby = (lobby, Some Invalid_token)"
    by simp
  from 0 1 2 4 5 6 show ?thesis by simp
qed

text \<open>
  A token that verifies to the user id of a stored user and to a username other than the
  stored one is accepted, and the session has the stored username.
\<close>

theorem stale_username_counterexample:
  "jwt_verify env1 ''token-renamed'' = Decoded \<lparr>c_userId = ''u1'', c_username = ''mallory''\<rparr>
   \<and> socket_auth env1 \<lparr>auth_token = Some ''token-renamed'', authorization = None\<rparr> lobby
       = Inr (''u1'', ''alice'')
   \<and> ''alice'' \<noteq> ''mallory''"
  by (simp add: env1_def sample_defs socket_auth_def handshake_token_def findById_def)

end
